theory Spec2Isabelle
  imports Complex_Main "HOL-Library.Multiset" "HOL-Library.Product_Lexorder"
begin

chapter \<open>The OCR service: result normalisation, tile remapping, duplicate resolution\<close>

section \<open>Geometry primitives\<close>

text \<open>
  The service (\<^verbatim>\<open>apps/ocr-service/main.py\<close>) is Python. Its floats are modelled as
  rationals, so arithmetic is exact; rounding, infinities and NaN are outside the model.
  \<^verbatim>\<open>BBox\<close> is the pydantic class with the float fields x, y, w, h.
\<close>

record bbox =
  bbox_x :: rat
  bbox_y :: rat
  bbox_w :: rat
  bbox_h :: rat

text \<open>
  Exceptions are values: a function that can raise returns \<open>py_error + 'a\<close>, with
  \<open>Inl\<close> for the exception.
\<close>

datatype py_error = AttributeError | TypeError | KeyError | IndexError | ValueError
  | ZeroDivisionError | ValidationError

text \<open>
  Python's \<^verbatim>\<open>/\<close> on numbers raises on a zero divisor.
\<close>

definition py_truediv :: "rat \<Rightarrow> rat \<Rightarrow> py_error + rat" where
  "py_truediv a b = (if b = 0 then Inl ZeroDivisionError else Inr (a / b))"

text \<open>
  \<^verbatim>\<open>calculate_bbox_iou\<close>, statement by statement.
\<close>

definition calculate_bbox_iou :: "bbox \<Rightarrow> bbox \<Rightarrow> py_error + rat" where
  "calculate_bbox_iou bbox1 bbox2 =
     (let x1_inter = max (bbox_x bbox1) (bbox_x bbox2);
          y1_inter = max (bbox_y bbox1) (bbox_y bbox2);
          x2_inter = min (bbox_x bbox1 + bbox_w bbox1) (bbox_x bbox2 + bbox_w bbox2);
          y2_inter = min (bbox_y bbox1 + bbox_h bbox1) (bbox_y bbox2 + bbox_h bbox2)
      in if x2_inter \<le> x1_inter \<or> y2_inter \<le> y1_inter then Inr 0
         else
           (let intersection = (x2_inter - x1_inter) * (y2_inter - y1_inter);
                area1 = bbox_w bbox1 * bbox_h bbox1;
                area2 = bbox_w bbox2 * bbox_h bbox2;
                union = area1 + area2 - intersection
            in if union > 0 then py_truediv intersection union else Inr 0))"

text \<open>
  The quantities the specification names for the IoU: width and height of the
  intersection rectangle, the areas, and the IoU as the specification words it
  (\<open>spec_iou\<close>). \<open>iou\<close> reads the value that \<open>calculate_bbox_iou\<close> returns.
\<close>

definition inter_width :: "bbox \<Rightarrow> bbox \<Rightarrow> rat" where
  "inter_width a b = min (bbox_x a + bbox_w a) (bbox_x b + bbox_w b) - max (bbox_x a) (bbox_x b)"

definition inter_height :: "bbox \<Rightarrow> bbox \<Rightarrow> rat" where
  "inter_height a b = min (bbox_y a + bbox_h a) (bbox_y b + bbox_h b) - max (bbox_y a) (bbox_y b)"

definition area :: "bbox \<Rightarrow> rat" where
  "area a = bbox_w a * bbox_h a"

definition intersectionArea :: "bbox \<Rightarrow> bbox \<Rightarrow> rat" where
  "intersectionArea a b = inter_width a b * inter_height a b"


definition iou :: "bbox \<Rightarrow> bbox \<Rightarrow> rat" where
  "iou a b = (case calculate_bbox_iou a b of Inr r \<Rightarrow> r | Inl e \<Rightarrow> 0)"

section \<open>Document model\<close>

text \<open>
  The pydantic classes Token, Line and Block. A \<open>char\<close> of a text stands for one character
  of the Python string. Records are values: whether the model library shares one BBox object
  between a Block, its Line and its Token, or copies it, is decided outside this file's source
  and is not modelled.
\<close>

record token =
  token_text :: string
  token_bbox :: bbox
  confidence :: "rat option"

record line =
  line_text :: string
  line_bbox :: bbox
  tokens :: "token list"

record block =
  block_text :: string
  block_bbox :: bbox
  blockType :: string
  lines :: "line list"

section \<open>Duplicate resolver\<close>

text \<open>
  \<^verbatim>\<open>deduplicate_blocks_by_iou\<close>. \<open>confidence_or_zero\<close> is \<^verbatim>\<open>t.confidence or 0.0\<close>,
  \<open>dedup_key\<close> is the sort key (a Python tuple, ordered lexicographically), and
  \<open>sorted_blocks\<close> is \<^verbatim>\<open>sorted(blocks, key=..., reverse=True)\<close>: the list is reversed,
  sorted stably in ascending order and reversed again, so blocks with equal keys keep their
  order. The divisor of the mean is \<^verbatim>\<open>max(1, ...)\<close> and so never zero.
\<close>

definition confidence_or_zero :: "token \<Rightarrow> rat" where
  "confidence_or_zero t = (case confidence t of None \<Rightarrow> 0 | Some c \<Rightarrow> c)"

definition dedup_key :: "block \<Rightarrow> rat \<times> nat" where
  "dedup_key b =
     (sum_list (map confidence_or_zero (concat (map tokens (lines b))))
        / of_nat (max 1 (sum_list (map (\<lambda>l. length (tokens l)) (lines b)))),
      length (block_text b))"

definition sorted_blocks :: "block list \<Rightarrow> block list" where
  "sorted_blocks blocks = rev (sort_key dedup_key (rev blocks))"

text \<open>
  The inner loop with its \<^verbatim>\<open>break\<close>, the outer loop over the sorted blocks, and the
  function with its early return for pools of at most one block.
\<close>

fun is_duplicate :: "rat \<Rightarrow> block \<Rightarrow> block list \<Rightarrow> py_error + bool" where
  "is_duplicate t b [] = Inr False"
| "is_duplicate t b (kept # rest) =
     (case calculate_bbox_iou (block_bbox b) (block_bbox kept) of
        Inl e \<Rightarrow> Inl e
      | Inr v \<Rightarrow> if v > t then Inr True else is_duplicate t b rest)"

fun kept_loop :: "rat \<Rightarrow> block list \<Rightarrow> block list \<Rightarrow> py_error + block list" where
  "kept_loop t kept_blocks [] = Inr kept_blocks"
| "kept_loop t kept_blocks (b # bs) =
     (case is_duplicate t b kept_blocks of
        Inl e \<Rightarrow> Inl e
      | Inr dup \<Rightarrow> kept_loop t (if dup then kept_blocks else kept_blocks @ [b]) bs)"

definition deduplicate_blocks_by_iou :: "block list \<Rightarrow> rat \<Rightarrow> py_error + block list" where
  "deduplicate_blocks_by_iou blocks iou_threshold =
     (if length blocks \<le> 1 then Inr blocks
      else kept_loop iou_threshold [] (sorted_blocks blocks))"



fun spec_walk :: "rat \<Rightarrow> block list \<Rightarrow> block list \<Rightarrow> block list" where
  "spec_walk t kept [] = kept"
| "spec_walk t kept (b # bs) =
     (if \<forall>k \<in> set kept. iou (block_bbox b) (block_bbox k) \<le> t
      then spec_walk t (kept @ [b]) bs else spec_walk t kept bs)"

fun compatible :: "rat \<Rightarrow> block list \<Rightarrow> block list \<Rightarrow> bool" where
  "compatible t kept [] = True"
| "compatible t kept (b # bs) =
     ((\<forall>k \<in> set kept. iou (block_bbox b) (block_bbox k) \<le> t) \<and> compatible t (kept @ [b]) bs)"

text \<open>
  Sample boxes and a block as the OCR-only normaliser builds it for one word.
\<close>

definition unit_box :: bbox where
  "unit_box = \<lparr>bbox_x = 0, bbox_y = 0, bbox_w = 1, bbox_h = 1\<rparr>"


definition word_block :: "string \<Rightarrow> bbox \<Rightarrow> rat option \<Rightarrow> block" where
  "word_block s bb c =
     \<lparr>block_text = s, block_bbox = bb, blockType = ''ocr_word'',
      lines = [\<lparr>line_text = s, line_bbox = bb,
                tokens = [\<lparr>token_text = s, token_bbox = bb, confidence = c\<rparr>]\<rparr>]\<rparr>"

definition right_box :: bbox where
  "right_box = \<lparr>bbox_x = 3 / 4, bbox_y = 0, bbox_w = 1, bbox_h = 1\<rparr>"

section \<open>Engine results as Python values\<close>

text \<open>
  The engine's result is untyped. \<open>PyModel d\<close> is an object that offers
  \<^verbatim>\<open>model_dump()\<close> (or \<^verbatim>\<open>dict()\<close>) returning the dict \<open>d\<close>; dict keys are strings.
\<close>

datatype pyval =
    PyNone
  | PyBool bool
  | PyInt int
  | PyFloat rat
  | PyStr string
  | PyList "pyval list"
  | PyTuple "pyval list"
  | PyDict "(string \<times> pyval) list"
  | PyModel "(string \<times> pyval) list"

text \<open>
  What the Python builtins and the model library do on ill-typed values is not in the
  repository, so it is a parameter: \<open>float_of_str\<close> is \<^verbatim>\<open>float(s)\<close> on a string
  (\<open>None\<close> for ValueError), \<open>str_of\<close> formats a value inside an f-string,
  \<open>min_mixed\<close> and \<open>max_mixed\<close> are \<^verbatim>\<open>min\<close> and \<^verbatim>\<open>max\<close> on two or more values that
  are not all numbers, and the \<open>coerce\<close> fields are the library's validation of a value whose
  type is not the field's (\<open>None\<close> for ValidationError). On well-typed values every
  operation below is fixed.
\<close>

record pylib =
  float_of_str :: "string \<Rightarrow> rat option"
  str_of :: "pyval \<Rightarrow> string"
  min_mixed :: "pyval list \<Rightarrow> py_error + pyval"
  max_mixed :: "pyval list \<Rightarrow> py_error + pyval"
  coerce_str :: "pyval \<Rightarrow> string option"
  coerce_int :: "pyval \<Rightarrow> int option"
  coerce_float :: "pyval \<Rightarrow> rat option"
  coerce_int_list :: "pyval \<Rightarrow> int list option"

text \<open>
  Sequencing: the first exception ends the computation.
\<close>

definition bind_err :: "'e + 'a \<Rightarrow> ('a \<Rightarrow> 'e + 'b) \<Rightarrow> 'e + 'b" where
  "bind_err m f = (case m of Inl e \<Rightarrow> Inl e | Inr v \<Rightarrow> f v)"

fun map_err :: "('a \<Rightarrow> 'e + 'b) \<Rightarrow> 'a list \<Rightarrow> 'e + 'b list" where
  "map_err f [] = Inr []"
| "map_err f (x # xs) = bind_err (f x) (\<lambda>y. bind_err (map_err f xs) (\<lambda>ys. Inr (y # ys)))"

text \<open>
  Truth value, \<^verbatim>\<open>a or b\<close>, numeric value, \<^verbatim>\<open>len\<close>, iteration, indexing by a literal
  index, \<^verbatim>\<open>.get\<close>, \<^verbatim>\<open>.keys()\<close>, subtraction, \<^verbatim>\<open>float\<close>, \<^verbatim>\<open>min\<close> and \<^verbatim>\<open>max\<close>.
\<close>

fun py_truthy :: "pyval \<Rightarrow> bool" where
  "py_truthy PyNone = False"
| "py_truthy (PyBool b) = b"
| "py_truthy (PyInt i) = (i \<noteq> 0)"
| "py_truthy (PyFloat r) = (r \<noteq> 0)"
| "py_truthy (PyStr s) = (s \<noteq> [])"
| "py_truthy (PyList xs) = (xs \<noteq> [])"
| "py_truthy (PyTuple xs) = (xs \<noteq> [])"
| "py_truthy (PyDict d) = (d \<noteq> [])"
| "py_truthy (PyModel d) = True"

definition py_or :: "pyval \<Rightarrow> pyval \<Rightarrow> pyval" where
  "py_or a b = (if py_truthy a then a else b)"

fun py_num :: "pyval \<Rightarrow> rat option" where
  "py_num (PyBool b) = Some (if b then 1 else 0)"
| "py_num (PyInt i) = Some (of_int i)"
| "py_num (PyFloat r) = Some r"
| "py_num v = None"

fun py_integral :: "pyval \<Rightarrow> int option" where
  "py_integral (PyBool b) = Some (if b then 1 else 0)"
| "py_integral (PyInt i) = Some i"
| "py_integral v = None"

fun py_len :: "pyval \<Rightarrow> py_error + nat" where
  "py_len (PyStr s) = Inr (length s)"
| "py_len (PyList xs) = Inr (length xs)"
| "py_len (PyTuple xs) = Inr (length xs)"
| "py_len (PyDict d) = Inr (length d)"
| "py_len v = Inl TypeError"

fun py_iter :: "pyval \<Rightarrow> py_error + pyval list" where
  "py_iter (PyStr s) = Inr (map (\<lambda>c. PyStr [c]) s)"
| "py_iter (PyList xs) = Inr xs"
| "py_iter (PyTuple xs) = Inr xs"
| "py_iter (PyDict d) = Inr (map (\<lambda>kv. PyStr (fst kv)) d)"
| "py_iter (PyModel d) = Inr (map (\<lambda>kv. PyTuple [PyStr (fst kv), snd kv]) d)"
| "py_iter v = Inl TypeError"

fun py_getitem :: "pyval \<Rightarrow> nat \<Rightarrow> py_error + pyval" where
  "py_getitem (PyStr s) i = (if i < length s then Inr (PyStr [s ! i]) else Inl IndexError)"
| "py_getitem (PyList xs) i = (if i < length xs then Inr (xs ! i) else Inl IndexError)"
| "py_getitem (PyTuple xs) i = (if i < length xs then Inr (xs ! i) else Inl IndexError)"
| "py_getitem (PyDict d) i = Inl KeyError"
| "py_getitem v i = Inl TypeError"

fun py_get :: "pyval \<Rightarrow> string \<Rightarrow> pyval \<Rightarrow> py_error + pyval" where
  "py_get (PyDict d) k dflt = Inr (case map_of d k of None \<Rightarrow> dflt | Some v \<Rightarrow> v)"
| "py_get v k dflt = Inl AttributeError"

fun py_keys :: "pyval \<Rightarrow> py_error + string list" where
  "py_keys (PyDict d) = Inr (map fst d)"
| "py_keys v = Inl AttributeError"

definition py_sub :: "pyval \<Rightarrow> pyval \<Rightarrow> py_error + pyval" where
  "py_sub a b =
     (case (py_integral a, py_integral b) of
        (Some i, Some j) \<Rightarrow> Inr (PyInt (i - j))
      | _ \<Rightarrow> (case (py_num a, py_num b) of
                (Some x, Some y) \<Rightarrow> Inr (PyFloat (x - y))
              | _ \<Rightarrow> Inl TypeError))"

definition py_float :: "pylib \<Rightarrow> pyval \<Rightarrow> py_error + rat" where
  "py_float L v =
     (case py_num v of
        Some r \<Rightarrow> Inr r
      | None \<Rightarrow> (case v of
                   PyStr s \<Rightarrow> (case float_of_str L s of None \<Rightarrow> Inl ValueError | Some r \<Rightarrow> Inr r)
                 | _ \<Rightarrow> Inl TypeError))"

definition num_of :: "pyval \<Rightarrow> rat" where
  "num_of v = (case py_num v of Some r \<Rightarrow> r | None \<Rightarrow> 0)"

definition py_min :: "pylib \<Rightarrow> pyval list \<Rightarrow> py_error + pyval" where
  "py_min L xs =
     (case xs of
        [] \<Rightarrow> Inl ValueError
      | [x] \<Rightarrow> Inr x
      | x # rest \<Rightarrow>
          if list_all (\<lambda>v. py_num v \<noteq> None) xs
          then Inr (foldl (\<lambda>m v. if num_of v < num_of m then v else m) x rest)
          else min_mixed L xs)"

definition py_max :: "pylib \<Rightarrow> pyval list \<Rightarrow> py_error + pyval" where
  "py_max L xs =
     (case xs of
        [] \<Rightarrow> Inl ValueError
      | [x] \<Rightarrow> Inr x
      | x # rest \<Rightarrow>
          if list_all (\<lambda>v. py_num v \<noteq> None) xs
          then Inr (foldl (\<lambda>m v. if num_of v > num_of m then v else m) x rest)
          else max_mixed L xs)"

text \<open>
  Validation of a constructor argument against the field types \<^verbatim>\<open>str\<close>, \<^verbatim>\<open>int\<close>,
  \<^verbatim>\<open>Optional[float]\<close> and \<^verbatim>\<open>Optional[list[int]]\<close>.
\<close>

definition validate_str :: "pylib \<Rightarrow> pyval \<Rightarrow> py_error + string" where
  "validate_str L v =
     (case v of
        PyStr s \<Rightarrow> Inr s
      | _ \<Rightarrow> (case coerce_str L v of None \<Rightarrow> Inl ValidationError | Some s \<Rightarrow> Inr s))"

definition validate_int :: "pylib \<Rightarrow> pyval \<Rightarrow> py_error + int" where
  "validate_int L v =
     (case v of
        PyInt i \<Rightarrow> Inr i
      | _ \<Rightarrow> (case coerce_int L v of None \<Rightarrow> Inl ValidationError | Some i \<Rightarrow> Inr i))"

definition validate_opt_float :: "pylib \<Rightarrow> pyval \<Rightarrow> py_error + rat option" where
  "validate_opt_float L v =
     (case v of
        PyNone \<Rightarrow> Inr None
      | PyFloat r \<Rightarrow> Inr (Some r)
      | PyInt i \<Rightarrow> Inr (Some (of_int i))
      | _ \<Rightarrow> (case coerce_float L v of None \<Rightarrow> Inl ValidationError | Some r \<Rightarrow> Inr (Some r)))"

fun all_ints :: "pyval list \<Rightarrow> int list option" where
  "all_ints [] = Some []"
| "all_ints (PyInt i # vs) = (case all_ints vs of None \<Rightarrow> None | Some is \<Rightarrow> Some (i # is))"
| "all_ints (v # vs) = None"

definition validate_opt_int_list :: "pylib \<Rightarrow> pyval \<Rightarrow> py_error + int list option" where
  "validate_opt_int_list L v =
     (case v of
        PyNone \<Rightarrow> Inr None
      | _ \<Rightarrow> (case (case v of PyList vs \<Rightarrow> all_ints vs | _ \<Rightarrow> None) of
                Some is \<Rightarrow> Inr (Some is)
              | None \<Rightarrow> (case coerce_int_list L v of
                           None \<Rightarrow> Inl ValidationError
                         | Some is \<Rightarrow> Inr (Some is))))"

section \<open>Result normaliser\<close>

text \<open>
  Table cells are plain dicts in the source, so their entries keep the engine's values; Table,
  Figure and Page are pydantic classes. \<open>raw_word\<close> is an entry of the list
  \<^verbatim>\<open>all_words\<close>, which the function builds and never reads.
\<close>

record cell =
  rowIndex :: pyval
  colIndex :: pyval
  rowSpan :: pyval
  colSpan :: pyval
  cell_text :: pyval
  cell_bbox :: bbox

record table =
  table_bbox :: bbox
  rows :: int
  cols :: int
  cells :: "cell list"

record figure =
  figure_bbox :: bbox
  figureType :: string

record page =
  pageIndex :: int
  dpi :: int
  widthPx :: int
  heightPx :: int
  blocks :: "block list"
  tables :: "table list option"
  figures :: "figure list option"
  readingOrder :: "int list option"

record raw_word =
  raw_text :: pyval
  raw_bbox :: "pyval list"
  raw_confidence :: pyval
  raw_direction :: pyval

text \<open>
  The defaults of \<^verbatim>\<open>.get("box", ...)\<close> and \<^verbatim>\<open>.get("points", ...)\<close>.
\<close>

definition zero_box :: pyval where
  "zero_box = PyList [PyInt 0, PyInt 0, PyInt 0, PyInt 0]"

definition zero_points :: pyval where
  "zero_points = PyList [PyList [PyInt 0, PyInt 0], PyList [PyInt 0, PyInt 0],
                         PyList [PyInt 0, PyInt 0], PyList [PyInt 0, PyInt 0]]"

text \<open>
  \<^verbatim>\<open>BBox(x=float(b[0]), y=float(b[1]), w=float(b[2] - b[0]), h=float(b[3] - b[1]))\<close>, in
  the order Python evaluates it; the source writes it out for paragraphs, tables, cells and
  figures. \<open>points_extent\<close> is the enclosing rectangle of a word's polygon.
\<close>

definition box_to_bbox :: "pylib \<Rightarrow> pyval \<Rightarrow> py_error + bbox" where
  "box_to_bbox L bbox_data =
     bind_err (py_getitem bbox_data 0) (\<lambda>b0. bind_err (py_float L b0) (\<lambda>x.
     bind_err (py_getitem bbox_data 1) (\<lambda>b1. bind_err (py_float L b1) (\<lambda>y.
     bind_err (py_getitem bbox_data 2) (\<lambda>b2. bind_err (py_getitem bbox_data 0) (\<lambda>b0'.
     bind_err (py_sub b2 b0') (\<lambda>dw. bind_err (py_float L dw) (\<lambda>w.
     bind_err (py_getitem bbox_data 3) (\<lambda>b3. bind_err (py_getitem bbox_data 1) (\<lambda>b1'.
     bind_err (py_sub b3 b1') (\<lambda>dh. bind_err (py_float L dh) (\<lambda>h.
     Inr \<lparr>bbox_x = x, bbox_y = y, bbox_w = w, bbox_h = h\<rparr>))))))))))))"

definition points_extent :: "pylib \<Rightarrow> pyval \<Rightarrow> py_error + pyval \<times> pyval \<times> pyval \<times> pyval" where
  "points_extent L points =
     bind_err (py_iter points) (\<lambda>ps.
     bind_err (map_err (\<lambda>p. py_getitem p 0) ps) (\<lambda>xs.
     bind_err (map_err (\<lambda>p. py_getitem p 1) ps) (\<lambda>ys.
     bind_err (py_min L xs) (\<lambda>x1. bind_err (py_max L xs) (\<lambda>x2.
     bind_err (py_min L ys) (\<lambda>y1. bind_err (py_max L ys) (\<lambda>y2.
     Inr (x1, y1, x2, y2))))))))"

text \<open>
  The bodies of the four loops of \<^verbatim>\<open>yomitoku_result_to_page\<close>.
\<close>

definition word_to_raw :: "pylib \<Rightarrow> pyval \<Rightarrow> py_error + raw_word" where
  "word_to_raw L word_data =
     bind_err (py_get word_data ''points'' zero_points) (\<lambda>points.
     bind_err (points_extent L points) (\<lambda>(x1, y1, x2, y2).
     bind_err (py_get word_data ''content'' (PyStr '''')) (\<lambda>content.
     bind_err (py_get word_data ''rec_score'' (PyFloat 1)) (\<lambda>score.
     bind_err (py_get word_data ''direction'' (PyStr ''horizontal'')) (\<lambda>direction.
     Inr \<lparr>raw_text = content, raw_bbox = [x1, y1, x2, y2],
          raw_confidence = score, raw_direction = direction\<rparr>)))))"

definition paragraph_to_block :: "pylib \<Rightarrow> pyval \<Rightarrow> py_error + block" where
  "paragraph_to_block L paragraph =
     bind_err (py_get paragraph ''box'' zero_box) (\<lambda>bbox_data.
     bind_err (box_to_bbox L bbox_data) (\<lambda>bbox.
     bind_err (py_get paragraph ''contents'' (PyStr '''')) (\<lambda>contents.
     bind_err (py_get paragraph ''role'' PyNone) (\<lambda>role_raw.
     bind_err (py_get paragraph ''direction'' PyNone) (\<lambda>direction_raw.
       (let text_content = py_or contents (PyStr '''');
            role = py_or role_raw (PyStr ''text'');
            direction = py_or direction_raw (PyStr ''horizontal'');
            block_type = (if py_truthy role then role
                          else PyStr (''paragraph_'' @ (case direction of PyStr s \<Rightarrow> s | v \<Rightarrow> str_of L v)))
        in bind_err (validate_str L text_content) (\<lambda>line_text_v.
           bind_err (validate_str L text_content) (\<lambda>block_text_v.
           bind_err (validate_str L block_type) (\<lambda>block_type_v.
           Inr \<lparr>block_text = block_text_v, block_bbox = bbox, blockType = block_type_v,
                lines = [\<lparr>line_text = line_text_v, line_bbox = bbox, tokens = []\<rparr>]\<rparr>)))))))))"

definition cell_to_dict :: "pylib \<Rightarrow> pyval \<Rightarrow> py_error + cell" where
  "cell_to_dict L cell_data =
     bind_err (py_get cell_data ''box'' zero_box) (\<lambda>cell_bbox_data.
     bind_err (py_get cell_data ''row'' (PyInt 0)) (\<lambda>r.
     bind_err (py_get cell_data ''col'' (PyInt 0)) (\<lambda>c.
     bind_err (py_get cell_data ''row_span'' (PyInt 1)) (\<lambda>rs.
     bind_err (py_get cell_data ''col_span'' (PyInt 1)) (\<lambda>cs.
     bind_err (py_get cell_data ''contents'' (PyStr '''')) (\<lambda>contents.
     bind_err (box_to_bbox L cell_bbox_data) (\<lambda>bb.
     Inr \<lparr>rowIndex = r, colIndex = c, rowSpan = rs, colSpan = cs,
          cell_text = py_or contents (PyStr ''''), cell_bbox = bb\<rparr>)))))))"

definition table_to_table :: "pylib \<Rightarrow> pyval \<Rightarrow> py_error + table" where
  "table_to_table L table_data =
     bind_err (py_get table_data ''box'' zero_box) (\<lambda>bbox_data.
     bind_err (box_to_bbox L bbox_data) (\<lambda>bbox.
     bind_err (py_get table_data ''n_row'' (PyInt 0)) (\<lambda>rows_count.
     bind_err (py_get table_data ''n_col'' (PyInt 0)) (\<lambda>cols_count.
     bind_err (py_get table_data ''cells'' (PyList [])) (\<lambda>cells_v.
     bind_err (py_iter cells_v) (\<lambda>cell_items.
     bind_err (map_err (cell_to_dict L) cell_items) (\<lambda>cs.
     bind_err (validate_int L rows_count) (\<lambda>r.
     bind_err (validate_int L cols_count) (\<lambda>c.
     Inr \<lparr>table_bbox = bbox, rows = r, cols = c, cells = cs\<rparr>)))))))))"

definition figure_to_figure :: "pylib \<Rightarrow> pyval \<Rightarrow> py_error + figure" where
  "figure_to_figure L figure_data =
     bind_err (py_get figure_data ''box'' zero_box) (\<lambda>bbox_data.
     bind_err (box_to_bbox L bbox_data) (\<lambda>bbox.
     bind_err (py_get figure_data ''direction'' PyNone) (\<lambda>direction.
       (let figure_type = (if py_truthy direction
                           then ''figure_'' @ (case direction of PyStr s \<Rightarrow> s | v \<Rightarrow> str_of L v)
                           else ''figure'')
        in Inr \<lparr>figure_bbox = bbox, figureType = figure_type\<rparr>))))"

text \<open>
  The head of \<^verbatim>\<open>yomitoku_result_to_page\<close>: a tuple gives way to its first element, a model
  object to its dict. \<open>dict_field r k\<close> is the value under \<open>k\<close> when
  \<^verbatim>\<open>isinstance(r, dict) and k in r\<close>. The four sections include the \<^verbatim>\<open>len\<close> and
  \<^verbatim>\<open>.keys()\<close> calls of their print statements, which can raise. The last statement before
  the Page is built, \<^verbatim>\<open>result.get("reading_order")\<close>, has no \<^verbatim>\<open>isinstance\<close> guard.
\<close>

definition unwrap_result :: "pyval \<Rightarrow> pyval" where
  "unwrap_result result =
     (let r1 = (case result of PyTuple (first # others) \<Rightarrow> first | _ \<Rightarrow> result)
      in case r1 of PyModel d \<Rightarrow> PyDict d | _ \<Rightarrow> r1)"

definition dict_field :: "pyval \<Rightarrow> string \<Rightarrow> pyval option" where
  "dict_field result k = (case result of PyDict d \<Rightarrow> map_of d k | _ \<Rightarrow> None)"

definition convert_words :: "pylib \<Rightarrow> pyval \<Rightarrow> py_error + raw_word list" where
  "convert_words L result =
     (case dict_field result ''words'' of
        None \<Rightarrow> Inr []
      | Some ws \<Rightarrow>
          bind_err (py_len ws) (\<lambda>n.
          bind_err (py_iter ws) (\<lambda>items. map_err (word_to_raw L) items)))"

definition convert_paragraphs :: "pylib \<Rightarrow> pyval \<Rightarrow> py_error + block list" where
  "convert_paragraphs L result =
     (case dict_field result ''paragraphs'' of
        None \<Rightarrow> Inr []
      | Some ps \<Rightarrow>
          bind_err (py_len ps) (\<lambda>n.
          bind_err (if n > 0 then bind_err (py_getitem ps 0) py_keys else Inr []) (\<lambda>sample_keys.
          bind_err (py_iter ps) (\<lambda>items. map_err (paragraph_to_block L) items))))"

definition convert_tables :: "pylib \<Rightarrow> pyval \<Rightarrow> py_error + table list" where
  "convert_tables L result =
     (case dict_field result ''tables'' of
        None \<Rightarrow> Inr []
      | Some ts \<Rightarrow>
          bind_err (py_len ts) (\<lambda>n.
          bind_err (py_iter ts) (\<lambda>items. map_err (table_to_table L) items)))"

definition convert_figures :: "pylib \<Rightarrow> pyval \<Rightarrow> py_error + figure list" where
  "convert_figures L result =
     (case dict_field result ''figures'' of
        None \<Rightarrow> Inr []
      | Some fs \<Rightarrow>
          bind_err (py_len fs) (\<lambda>n.
          bind_err (py_iter fs) (\<lambda>items. map_err (figure_to_figure L) items)))"

definition yomitoku_result_to_page ::
  "pylib \<Rightarrow> pyval \<Rightarrow> int \<Rightarrow> int \<Rightarrow> int \<Rightarrow> int \<Rightarrow> py_error + page" where
  "yomitoku_result_to_page L result0 page_index dpi_arg width height =
     (let result = unwrap_result result0 in
      bind_err (convert_words L result) (\<lambda>all_words.
      bind_err (convert_paragraphs L result) (\<lambda>blocks_v.
      bind_err (convert_tables L result) (\<lambda>tables_v.
      bind_err (convert_figures L result) (\<lambda>figures_v.
      bind_err (py_get result ''reading_order'' PyNone) (\<lambda>reading_order.
      bind_err (validate_opt_int_list L reading_order) (\<lambda>ro.
      Inr \<lparr>pageIndex = page_index, dpi = dpi_arg, widthPx = width, heightPx = height,
           blocks = blocks_v,
           tables = (if tables_v \<noteq> [] then Some tables_v else None),
           figures = (if figures_v \<noteq> [] then Some figures_v else None),
           readingOrder = ro\<rparr>)))))))"

text \<open>
  \<^verbatim>\<open>yomitoku_ocr_to_page\<close>: one Block, Line and Token per word.
\<close>

definition word_to_block :: "pylib \<Rightarrow> pyval \<Rightarrow> py_error + block" where
  "word_to_block L word =
     bind_err (py_get word ''points'' zero_points) (\<lambda>points.
     bind_err (points_extent L points) (\<lambda>(x1, y1, x2, y2).
     bind_err (py_float L x1) (\<lambda>x.
     bind_err (py_float L y1) (\<lambda>y.
     bind_err (py_sub x2 x1) (\<lambda>dw. bind_err (py_float L dw) (\<lambda>w.
     bind_err (py_sub y2 y1) (\<lambda>dh. bind_err (py_float L dh) (\<lambda>h.
     bind_err (py_get word ''content'' (PyStr '''')) (\<lambda>content.
     bind_err (py_get word ''rec_score'' PyNone) (\<lambda>score.
     bind_err (validate_str L (py_or content (PyStr ''''))) (\<lambda>text.
     bind_err (validate_opt_float L score) (\<lambda>conf.
       (let bbox = \<lparr>bbox_x = x, bbox_y = y, bbox_w = w, bbox_h = h\<rparr>;
            token = \<lparr>token_text = text, token_bbox = bbox, confidence = conf\<rparr>;
            line = \<lparr>line_text = token_text token, line_bbox = bbox, tokens = [token]\<rparr>
        in Inr \<lparr>block_text = token_text token, block_bbox = bbox,
                blockType = ''ocr_word'', lines = [line]\<rparr>)))))))))))))"

definition ocr_words :: "pyval \<Rightarrow> py_error + pyval" where
  "ocr_words result =
     (case dict_field result ''words'' of
        Some ws \<Rightarrow> bind_err (py_len ws) (\<lambda>n. Inr ws)
      | None \<Rightarrow>
          (case result of
             PyTuple (first # others) \<Rightarrow>
               (case first of PyDict d \<Rightarrow> py_get first ''words'' (PyList []) | _ \<Rightarrow> Inr (PyList []))
           | _ \<Rightarrow> Inr (PyList [])))"

definition yomitoku_ocr_to_page ::
  "pylib \<Rightarrow> pyval \<Rightarrow> int \<Rightarrow> int \<Rightarrow> int \<Rightarrow> int \<Rightarrow> py_error + page" where
  "yomitoku_ocr_to_page L result0 page_index dpi_arg width height =
     (let result = (case result0 of PyModel d \<Rightarrow> PyDict d | _ \<Rightarrow> result0) in
      bind_err (ocr_words result) (\<lambda>words.
      bind_err (py_iter words) (\<lambda>items.
      bind_err (map_err (word_to_block L) items) (\<lambda>blocks_v.
      Inr \<lparr>pageIndex = page_index, dpi = dpi_arg, widthPx = width, heightPx = height,
           blocks = blocks_v, tables = None, figures = None, readingOrder = None\<rparr>))))"


definition paragraph_payload :: pyval where
  "paragraph_payload =
     PyDict [(''paragraphs'',
              PyList [PyDict [(''box'', PyList [PyInt 10, PyInt 10, PyInt 50, PyInt 30]),
                              (''contents'', PyStr ''hi''), (''role'', PyNone)]]),
             (''tables'', PyList []), (''figures'', PyList []), (''words'', PyList [])]"

definition paragraph_only_payload :: pyval where
  "paragraph_only_payload =
     PyDict [(''paragraphs'',
              PyList [PyDict [(''box'', PyList [PyInt 10, PyInt 10, PyInt 50, PyInt 30]),
                              (''contents'', PyStr ''hi''), (''role'', PyNone)]])]"

definition hi_block :: block where
  "hi_block =
     \<lparr>block_text = ''hi'',
      block_bbox = \<lparr>bbox_x = 10, bbox_y = 10, bbox_w = 40, bbox_h = 20\<rparr>,
      blockType = ''text'',
      lines = [\<lparr>line_text = ''hi'',
                line_bbox = \<lparr>bbox_x = 10, bbox_y = 10, bbox_w = 40, bbox_h = 20\<rparr>,
                tokens = []\<rparr>]\<rparr>"



section \<open>Tile endpoints\<close>


































section \<open>Properties\<close>

subsection \<open>Intersection over union\<close>

lemma calculate_bbox_iou_Inr: "calculate_bbox_iou a b = Inr (iou a b)"
  by (simp add: iou_def calculate_bbox_iou_def py_truediv_def Let_def)



lemma iou_unfold:
  "iou a b =
     (if inter_width a b \<le> 0 \<or> inter_height a b \<le> 0 then 0
      else if area a + area b - intersectionArea a b > 0
           then intersectionArea a b / (area a + area b - intersectionArea a b) else 0)"
  by (simp add: iou_def calculate_bbox_iou_def py_truediv_def Let_def inter_width_def
      inter_height_def area_def intersectionArea_def)



subsection \<open>Duplicate resolver\<close>

lemma is_duplicate_eq:
  "is_duplicate t b ks = Inr (\<exists>k \<in> set ks. iou (block_bbox b) (block_bbox k) > t)"
  by (induction ks) (auto simp: calculate_bbox_iou_Inr)

lemma kept_loop_spec_walk: "kept_loop t kept bs = Inr (spec_walk t kept bs)"
proof (induction bs arbitrary: kept)
  case Nil
  show ?case by simp
next
  case (Cons b bs)
  show ?case by (auto simp: is_duplicate_eq Cons.IH not_less not_le)
qed



lemma sorted_blocks_desc:
  "sorted_wrt (\<lambda>a b. dedup_key a \<ge> dedup_key b) (sorted_blocks pool)"
proof -
  have "sorted (map dedup_key (sort_key dedup_key (rev pool)))" by (rule sorted_sort_key)
  then have "sorted_wrt (\<lambda>a b. dedup_key a \<le> dedup_key b) (sort_key dedup_key (rev pool))"
    by (simp add: sorted_map)
  then show ?thesis by (simp add: sorted_blocks_def sorted_wrt_rev)
qed

lemma mset_sorted_blocks: "mset (sorted_blocks pool) = mset pool"
  by (simp add: sorted_blocks_def)

lemma sorted_blocks_id:
  assumes "sorted_wrt (\<lambda>a b. dedup_key a \<ge> dedup_key b) bs"
  shows "sorted_blocks bs = bs"
proof -
  have "sorted_wrt (\<lambda>a b. dedup_key a \<le> dedup_key b) (rev bs)"
    using assms by (simp add: sorted_wrt_rev)
  then have "sorted (map dedup_key (rev bs))" by (simp add: sorted_map)
  then have "sort_key dedup_key (rev bs) = rev bs" by (rule sort_key_id_if_sorted)
  then show ?thesis by (simp add: sorted_blocks_def)
qed

lemma spec_walk_sorted:
  "sorted_wrt P (kept @ bs) \<Longrightarrow> sorted_wrt P (spec_walk t kept bs)"
proof (induction bs arbitrary: kept)
  case Nil
  then show ?case by simp
next
  case (Cons b bs)
  have a: "sorted_wrt P ((kept @ [b]) @ bs)" using Cons.prems by simp
  have c: "sorted_wrt P (kept @ bs)" using Cons.prems by (auto simp: sorted_wrt_append)
  show ?case using Cons.IH[OF a] Cons.IH[OF c] by simp
qed

lemma spec_walk_mset: "mset (spec_walk t kept bs) \<subseteq># mset kept + mset bs"
proof (induction bs arbitrary: kept)
  case Nil
  show ?case by simp
next
  case (Cons b bs)
  have a: "mset (spec_walk t (kept @ [b]) bs) \<subseteq># mset kept + mset (b # bs)"
    using Cons.IH[of "kept @ [b]"] by simp
  have "mset (spec_walk t kept bs) \<subseteq># mset kept + mset bs" by (rule Cons.IH)
  also have "\<dots> \<subseteq># mset kept + mset (b # bs)" by simp
  finally show ?case using a by simp
qed

lemma spec_walk_compatible:
  "\<exists>r. spec_walk t kept bs = kept @ r \<and> compatible t kept r"
proof (induction bs arbitrary: kept)
  case Nil
  show ?case by simp
next
  case (Cons b bs)
  show ?case
  proof (cases "\<forall>k \<in> set kept. iou (block_bbox b) (block_bbox k) \<le> t")
    case True
    obtain r where r: "spec_walk t (kept @ [b]) bs = (kept @ [b]) @ r" "compatible t (kept @ [b]) r"
      using Cons.IH[of "kept @ [b]"] by blast
    have "spec_walk t kept (b # bs) = kept @ (b # r)" using True r(1) by simp
    moreover have "compatible t kept (b # r)" using True r(2) by simp
    ultimately show ?thesis by blast
  next
    case False
    then show ?thesis using Cons.IH[of kept] by auto
  qed
qed

lemma spec_walk_id: "compatible t kept ys \<Longrightarrow> spec_walk t kept ys = kept @ ys"
  by (induction ys arbitrary: kept) simp_all

lemma compatible_nth:
  "compatible t kept ys \<Longrightarrow> j < length ys \<Longrightarrow> k \<in> set kept \<union> set (take j ys)
     \<Longrightarrow> iou (block_bbox (ys ! j)) (block_bbox k) \<le> t"
proof (induction ys arbitrary: kept j)
  case Nil
  then show ?case by simp
next
  case (Cons b bs)
  show ?case
  proof (cases j)
    case 0
    then show ?thesis using Cons.prems by simp
  next
    case (Suc j')
    have "k \<in> set (kept @ [b]) \<union> set (take j' bs)" using Cons.prems(3) Suc by auto
    then have "iou (block_bbox (bs ! j')) (block_bbox k) \<le> t"
      using Cons.IH[of "kept @ [b]" j'] Cons.prems(1,2) Suc by simp
    then show ?thesis using Suc by simp
  qed
qed

lemma iou_sym: "iou a b = iou b a"
proof -
  have w: "inter_width a b = inter_width b a" by (simp add: inter_width_def min.commute max.commute)
  have h: "inter_height a b = inter_height b a" by (simp add: inter_height_def min.commute max.commute)
  have i: "intersectionArea a b = intersectionArea b a" by (simp add: intersectionArea_def w h)
  have u: "area a + area b = area b + area a" by simp
  show ?thesis unfolding iou_unfold w h i u ..
qed



lemma dedup_total: "deduplicate_blocks_by_iou pool t = Inr (spec_walk t [] (sorted_blocks pool))"
proof (cases "length pool \<le> 1")
  case True
  then consider "pool = []" | x where "pool = [x]" by (cases pool) auto
  then show ?thesis
    by cases (simp_all add: deduplicate_blocks_by_iou_def sorted_blocks_def)
next
  case False
  then show ?thesis by (simp add: deduplicate_blocks_by_iou_def kept_loop_spec_walk)
qed



lemma word_block_simps:
  "block_bbox (word_block s bb c) = bb" "block_text (word_block s bb c) = s"
  "dedup_key (word_block s bb c) = ((case c of None \<Rightarrow> 0 | Some v \<Rightarrow> v), length s)"
  by (simp_all add: word_block_def dedup_key_def confidence_or_zero_def)



lemma spec_walk_out:
  "\<exists>out. spec_walk t [] bs = out \<and> compatible t [] out"
  using spec_walk_compatible[of t "[]" bs] by simp

lemma dedup_output_sorted:
  "sorted_wrt (\<lambda>a b. dedup_key a \<ge> dedup_key b) (spec_walk t [] (sorted_blocks pool))"
  using spec_walk_sorted[of "\<lambda>a b. dedup_key a \<ge> dedup_key b" "[]" "sorted_blocks pool" t]
    sorted_blocks_desc[of pool] by simp

text \<open>
  Claim C6. Running \<open>deduplicate_blocks_by_iou\<close> on its own output, with the same
  threshold, returns that output unchanged.
\<close>

theorem deduplicate_idempotent:
  "\<exists>out. deduplicate_blocks_by_iou pool t = Inr out
         \<and> deduplicate_blocks_by_iou out t = Inr out"
proof -
  let ?out = "spec_walk t [] (sorted_blocks pool)"
  have c: "compatible t [] ?out" using spec_walk_out[of t "sorted_blocks pool"] by simp
  have "sorted_blocks ?out = ?out" using dedup_output_sorted by (rule sorted_blocks_id)
  then have "deduplicate_blocks_by_iou ?out t = Inr (spec_walk t [] ?out)"
    using dedup_total[of ?out t] by simp
  also have "spec_walk t [] ?out = ?out" using spec_walk_id[OF c] by simp
  finally show ?thesis using dedup_total[of pool t] by blast
qed

text \<open>
  A pool of two overlapping words and its output.
\<close>

theorem deduplicate_idempotent_witness:
  "deduplicate_blocks_by_iou
      [word_block ''ab'' unit_box None, word_block ''abc'' unit_box (Some (1 / 4))] (1 / 2)
     = Inr [word_block ''abc'' unit_box (Some (1 / 4))]
   \<and> deduplicate_blocks_by_iou [word_block ''abc'' unit_box (Some (1 / 4))] (1 / 2)
     = Inr [word_block ''abc'' unit_box (Some (1 / 4))]"
  using deduplicate_idempotent
    [of "[word_block ''ab'' unit_box None, word_block ''abc'' unit_box (Some (1 / 4))]" "1 / 2"]
  by (simp add: deduplicate_blocks_by_iou_def sorted_blocks_def word_block_simps
      calculate_bbox_iou_def py_truediv_def unit_box_def Let_def)

text \<open>
  Claim C9. The output is a sub-multiset of the pool, and any two blocks at different
  positions of the output have an IoU of at most the threshold.
\<close>

theorem deduplicate_subset_pairwise:
  "\<exists>out. deduplicate_blocks_by_iou pool t = Inr out
         \<and> mset out \<subseteq># mset pool \<and> set out \<subseteq> set pool
         \<and> (\<forall>i j. i < j \<and> j < length out \<longrightarrow>
               (\<exists>r. calculate_bbox_iou (block_bbox (out ! i)) (block_bbox (out ! j)) = Inr r \<and> r \<le> t)
             \<and> (\<exists>r. calculate_bbox_iou (block_bbox (out ! j)) (block_bbox (out ! i)) = Inr r \<and> r \<le> t))"
proof -
  let ?out = "spec_walk t [] (sorted_blocks pool)"
  have m: "mset ?out \<subseteq># mset pool"
    using spec_walk_mset[of t "[]" "sorted_blocks pool"] by (simp add: mset_sorted_blocks)
  have s: "set ?out \<subseteq> set pool" using set_mset_mono[OF m] by simp
  have c: "compatible t [] ?out" using spec_walk_out[of t "sorted_blocks pool"] by simp
  have p: "iou (block_bbox (?out ! j)) (block_bbox (?out ! i)) \<le> t" if "i < j" "j < length ?out" for i j
  proof -
    have "?out ! i \<in> set (take j ?out)" using that by (metis in_set_conv_nth length_take min.absorb2 nth_take order_less_imp_le)
    then show ?thesis using compatible_nth[OF c that(2), of "?out ! i"] by simp
  qed
  have "\<forall>i j. i < j \<and> j < length ?out \<longrightarrow>
               (\<exists>r. calculate_bbox_iou (block_bbox (?out ! i)) (block_bbox (?out ! j)) = Inr r \<and> r \<le> t)
             \<and> (\<exists>r. calculate_bbox_iou (block_bbox (?out ! j)) (block_bbox (?out ! i)) = Inr r \<and> r \<le> t)"
    using p by (simp add: calculate_bbox_iou_Inr iou_sym[of "block_bbox (?out ! i)" "block_bbox (?out ! j)" for i j])
  then show ?thesis using dedup_total[of pool t] m s by blast
qed

text \<open>
  Three words, two of them on the same box.
\<close>

theorem deduplicate_subset_pairwise_witness:
  "deduplicate_blocks_by_iou
      [word_block ''x'' unit_box (Some (1 / 2)), word_block ''y'' right_box (Some (3 / 4)),
       word_block ''z'' unit_box (Some (1 / 3))] (1 / 2)
     = Inr [word_block ''y'' right_box (Some (3 / 4)), word_block ''x'' unit_box (Some (1 / 2))]
   \<and> calculate_bbox_iou right_box unit_box = Inr (1 / 7)"
  using deduplicate_subset_pairwise
    [of "[word_block ''x'' unit_box (Some (1 / 2)), word_block ''y'' right_box (Some (3 / 4)),
       word_block ''z'' unit_box (Some (1 / 3))]" "1 / 2"]
  by (simp add: deduplicate_blocks_by_iou_def sorted_blocks_def word_block_simps
      calculate_bbox_iou_def py_truediv_def unit_box_def right_box_def Let_def)

subsection \<open>Result normaliser\<close>

lemmas py_eval =
  bind_err_def py_or_def py_sub_def py_float_def validate_str_def validate_int_def
  validate_opt_float_def validate_opt_int_list_def dict_field_def unwrap_result_def
  zero_box_def zero_points_def box_to_bbox_def

lemma hi_paragraph:
  "paragraph_to_block L (PyDict [(''box'', PyList [PyInt 10, PyInt 10, PyInt 50, PyInt 30]),
                              (''contents'', PyStr ''hi''), (''role'', PyNone)]) = Inr hi_block"
  by (simp add: paragraph_to_block_def py_eval hi_block_def)

text \<open>
  Claim C8. A full-analysis payload with the single paragraph
  \<^verbatim>\<open>{box: [10,10,50,30], contents: "hi", role: null}\<close> and no tables, figures or words
  (keys present and empty, or absent) gives one Block of type "text" with bbox
  (10, 10, 40, 20) and one Line with the text "hi" and no tokens.
\<close>

theorem normalize_single_paragraph:
  "yomitoku_result_to_page L paragraph_payload page_index d width height =
     Inr \<lparr>pageIndex = page_index, dpi = d, widthPx = width, heightPx = height,
          blocks = [\<lparr>block_text = ''hi'',
                     block_bbox = \<lparr>bbox_x = 10, bbox_y = 10, bbox_w = 40, bbox_h = 20\<rparr>,
                     blockType = ''text'',
                     lines = [\<lparr>line_text = ''hi'',
                               line_bbox = \<lparr>bbox_x = 10, bbox_y = 10, bbox_w = 40, bbox_h = 20\<rparr>,
                               tokens = []\<rparr>]\<rparr>],
          tables = None, figures = None, readingOrder = None\<rparr>
   \<and> yomitoku_result_to_page L paragraph_only_payload page_index d width height =
     Inr \<lparr>pageIndex = page_index, dpi = d, widthPx = width, heightPx = height,
          blocks = [\<lparr>block_text = ''hi'',
                     block_bbox = \<lparr>bbox_x = 10, bbox_y = 10, bbox_w = 40, bbox_h = 20\<rparr>,
                     blockType = ''text'',
                     lines = [\<lparr>line_text = ''hi'',
                               line_bbox = \<lparr>bbox_x = 10, bbox_y = 10, bbox_w = 40, bbox_h = 20\<rparr>,
                               tokens = []\<rparr>]\<rparr>],
          tables = None, figures = None, readingOrder = None\<rparr>"
proof -
  have w: "convert_words L paragraph_payload = Inr []" "convert_words L paragraph_only_payload = Inr []"
    by (simp_all add: convert_words_def paragraph_payload_def paragraph_only_payload_def py_eval)
  have p: "convert_paragraphs L paragraph_payload = Inr [hi_block]"
    "convert_paragraphs L paragraph_only_payload = Inr [hi_block]"
    by (simp_all add: convert_paragraphs_def paragraph_payload_def paragraph_only_payload_def
        dict_field_def bind_err_def hi_paragraph)
  have t: "convert_tables L paragraph_payload = Inr []" "convert_tables L paragraph_only_payload = Inr []"
    by (simp_all add: convert_tables_def paragraph_payload_def paragraph_only_payload_def py_eval)
  have f: "convert_figures L paragraph_payload = Inr []" "convert_figures L paragraph_only_payload = Inr []"
    by (simp_all add: convert_figures_def paragraph_payload_def paragraph_only_payload_def py_eval)
  have u: "unwrap_result paragraph_payload = paragraph_payload"
    "unwrap_result paragraph_only_payload = paragraph_only_payload"
    by (simp_all add: unwrap_result_def paragraph_payload_def paragraph_only_payload_def)
  have r: "py_get paragraph_payload ''reading_order'' PyNone = Inr PyNone"
    "py_get paragraph_only_payload ''reading_order'' PyNone = Inr PyNone"
    by (simp_all add: paragraph_payload_def paragraph_only_payload_def)
  show ?thesis
    by (simp add: yomitoku_result_to_page_def u w p t f r bind_err_def
        validate_opt_int_list_def hi_block_def)
qed





lemma ocr_words_only:
  assumes "map_of entries ''words'' = Some ws"
  shows "yomitoku_ocr_to_page L (PyDict entries) page_index d width height =
         yomitoku_ocr_to_page L (PyDict [(''words'', ws)]) page_index d width height"
  using assms by (simp add: yomitoku_ocr_to_page_def ocr_words_def dict_field_def)

















subsection \<open>Tile placement and remap\<close>











subsection \<open>Tile endpoints\<close>
















end
